theory Spec2Isabelle
  imports Main "HOL-Library.Word" "HOL-Library.AList"
begin

section \<open>Errors (store.go, persistence.go)\<close>

text \<open>
  Go errors are values. The sentinel errors of \<^verbatim>\<open>store.go\<close> and \<^verbatim>\<open>persistence.go\<close>
  are constructors; \<^verbatim>\<open>fmt.Errorf\<close> without \<^verbatim>\<open>%w\<close> (and \<^verbatim>\<open>errors.New\<close> at a
  call site) is \<open>Errorf\<close> with its format string, \<^verbatim>\<open>fmt.Errorf\<close> with \<^verbatim>\<open>%w\<close> is
  \<open>Wrapf\<close> around the wrapped error. \<open>ContextCanceled\<close> and
  \<open>ContextDeadlineExceeded\<close> are what \<^verbatim>\<open>ctx.Err()\<close> returns.
\<close>

datatype error =
    ErrKeyNotFound
  | ErrInvalidKey
  | ErrInvalidValue
  | ErrStoreClosed
  | ErrTimeout
  | ErrConcurrentModification
  | ErrPersistenceNotConfigured
  | ErrSnapshotCorrupted
  | ErrUnsupportedVersion
  | ErrSaveOperationFailed
  | ErrLoadOperationFailed
  | ErrNoSnapshotFound
  | ContextCanceled
  | ContextDeadlineExceeded
  | Errorf string
  | Wrapf string error

text \<open>\<^verbatim>\<open>errors.Is(err, target)\<close>: walks the chain of wrapped errors.\<close>

fun errors_Is :: "error \<Rightarrow> error \<Rightarrow> bool" where
  "errors_Is (Wrapf msg e) target = (Wrapf msg e = target \<or> errors_Is e target)"
| "errors_Is e target = (e = target)"

text \<open>\<^verbatim>\<open>NewPersistenceError(operation, err)\<close>: \<^verbatim>\<open>"persistence %s error: %w"\<close>.\<close>

definition NewPersistenceError :: "string \<Rightarrow> error \<Rightarrow> error" where
  "NewPersistenceError operation err = Wrapf (''persistence '' @ operation @ '' error: %w'') err"

section \<open>Keys, values, contexts (store.go)\<close>

type_synonym Key = string

text \<open>
  A \<^verbatim>\<open>time.Time\<close> is an instant, here its nanoseconds since the Unix epoch. The zero
  \<^verbatim>\<open>time.Time{}\<close> is January 1 of year 1.
\<close>

type_synonym time = int

definition zeroTime :: time where
  "zeroTime = - 62135596800 * 1000000000"

definition time_Unix :: "time \<Rightarrow> 64 word" where
  "time_Unix t = word_of_int (t div 1000000000)"

record Value =
  Data :: string
  CreatedAt :: time
  UpdatedAt :: time
  Version :: "64 word"

definition Value_zero :: Value where
  "Value_zero = \<lparr>Data = [], CreatedAt = zeroTime, UpdatedAt = zeroTime, Version = 0\<rparr>"

record Entry =
  Key :: Key
  Val :: Value

text \<open>
  \<^verbatim>\<open>Key.Validate\<close>: the length is the byte length, a \<open>char\<close> is a byte, and the
  loop over the bytes of the key is \<open>containsNullByte\<close>.
\<close>

fun containsNullByte :: "string \<Rightarrow> bool" where
  "containsNullByte [] = False"
| "containsNullByte (b # bs) = (if b = CHR 0x00 then True else containsNullByte bs)"

definition Key_Validate :: "Key \<Rightarrow> error option" where
  "Key_Validate k =
     (if length k = 0 then Some ErrInvalidKey
      else if length k > 255 then Some ErrInvalidKey
      else if containsNullByte k then Some ErrInvalidKey
      else None)"

text \<open>
  A \<^verbatim>\<open>context.Context\<close> as the operations see it: the
  \<^verbatim>\<open>select { case <-ctx.Done(): return ctx.Err(); default: }\<close> at the head of each
  method only asks whether the context is done and, if so, with which error.
\<close>

datatype Context = Background | Canceled | DeadlineExceeded

fun ctx_Err :: "Context \<Rightarrow> error option" where
  "ctx_Err Background = None"
| "ctx_Err Canceled = Some ContextCanceled"
| "ctx_Err DeadlineExceeded = Some ContextDeadlineExceeded"

section \<open>MemoryStore (memory_store.go)\<close>

text \<open>\<^verbatim>\<open>StoreStats\<close> of \<^verbatim>\<open>interface.go\<close>; Go's \<^verbatim>\<open>int\<close> is 64 bits wide.\<close>

record StoreStats =
  TotalKeys :: "64 word"
  TotalRequests :: "64 word"
  GetRequests :: "64 word"
  SetRequests :: "64 word"
  DeleteRequests :: "64 word"

definition StoreStats_zero :: StoreStats where
  "StoreStats_zero = \<lparr>TotalKeys = 0, TotalRequests = 0, GetRequests = 0,
     SetRequests = 0, DeleteRequests = 0\<rparr>"

text \<open>
  The Go map \<^verbatim>\<open>data map[string]Value\<close> is an association list read with \<open>map_of\<close>
  and written with \<open>AList.update\<close> and \<open>AList.delete\<close>, which keep its keys
  distinct. The iteration order of a Go map is unspecified; the order of the list stands
  for one such order and no theorem below depends on it. The two mutexes do not appear:
  every method body runs under the store lock, so a method is one atomic step. The
  reading of the clock (\<^verbatim>\<open>time.Now()\<close>) is an argument \<open>now\<close>.
\<close>

record MemoryStore =
  data :: "(string \<times> Value) list"
  stats :: StoreStats
  closed :: bool

definition NewMemoryStore :: MemoryStore where
  "NewMemoryStore = \<lparr>data = [], stats = StoreStats_zero, closed = False\<rparr>"

datatype StatType = StatGet | StatSet | StatDelete

definition incrementStat :: "StatType \<Rightarrow> MemoryStore \<Rightarrow> MemoryStore" where
  "incrementStat statType ms =
     (let st = (stats ms)\<lparr>TotalRequests := TotalRequests (stats ms) + 1\<rparr> in
      ms\<lparr>stats := (case statType of
          StatGet \<Rightarrow> st\<lparr>GetRequests := GetRequests st + 1\<rparr>
        | StatSet \<Rightarrow> st\<lparr>SetRequests := SetRequests st + 1\<rparr>
        | StatDelete \<Rightarrow> st\<lparr>DeleteRequests := DeleteRequests st + 1\<rparr>)\<rparr>)"

definition updateKeyCount :: "MemoryStore \<Rightarrow> MemoryStore" where
  "updateKeyCount ms = ms\<lparr>stats := (stats ms)\<lparr>TotalKeys := of_nat (length (data ms))\<rparr>\<rparr>"

text \<open>
  Each method returns the Go result tuple and the store after the call. A returned
  \<^verbatim>\<open>error\<close> is an \<open>error option\<close>, \<open>None\<close> for \<^verbatim>\<open>nil\<close>; a \<^verbatim>\<open>(Value, error)\<close>
  pair stays a pair, since \<^verbatim>\<open>CompareAndSwap\<close> returns a value together with an error.
\<close>

definition MemoryStore_Get ::
  "Context \<Rightarrow> Key \<Rightarrow> MemoryStore \<Rightarrow> (Value \<times> error option) \<times> MemoryStore" where
  "MemoryStore_Get ctx key ms =
     (case Key_Validate key of Some err \<Rightarrow> ((Value_zero, Some err), ms)
      | None \<Rightarrow>
     (case ctx_Err ctx of Some err \<Rightarrow> ((Value_zero, Some err), ms)
      | None \<Rightarrow>
      if closed ms then ((Value_zero, Some ErrStoreClosed), ms)
      else
        let ms1 = incrementStat StatGet ms in
        (case map_of (data ms1) key of
           None \<Rightarrow> ((Value_zero, Some ErrKeyNotFound), ms1)
         | Some v \<Rightarrow> ((v, None), ms1))))"

definition MemoryStore_Set ::
  "Context \<Rightarrow> Key \<Rightarrow> string \<Rightarrow> time \<Rightarrow> MemoryStore \<Rightarrow> error option \<times> MemoryStore" where
  "MemoryStore_Set ctx key val now ms =
     (case Key_Validate key of Some err \<Rightarrow> (Some err, ms)
      | None \<Rightarrow>
     (case ctx_Err ctx of Some err \<Rightarrow> (Some err, ms)
      | None \<Rightarrow>
      if closed ms then (Some ErrStoreClosed, ms)
      else
        let ms1 = incrementStat StatSet ms;
            newValue = (case map_of (data ms1) key of
                Some existingValue \<Rightarrow>
                  \<lparr>Data = val, CreatedAt = CreatedAt existingValue, UpdatedAt = now,
                   Version = Version existingValue + 1\<rparr>
              | None \<Rightarrow>
                  \<lparr>Data = val, CreatedAt = now, UpdatedAt = now, Version = 1\<rparr>);
            ms2 = ms1\<lparr>data := AList.update key newValue (data ms1)\<rparr>
        in (None, updateKeyCount ms2)))"

definition MemoryStore_Delete ::
  "Context \<Rightarrow> Key \<Rightarrow> MemoryStore \<Rightarrow> (Value \<times> error option) \<times> MemoryStore" where
  "MemoryStore_Delete ctx key ms =
     (case Key_Validate key of Some err \<Rightarrow> ((Value_zero, Some err), ms)
      | None \<Rightarrow>
     (case ctx_Err ctx of Some err \<Rightarrow> ((Value_zero, Some err), ms)
      | None \<Rightarrow>
      if closed ms then ((Value_zero, Some ErrStoreClosed), ms)
      else
        let ms1 = incrementStat StatDelete ms in
        (case map_of (data ms1) key of
           None \<Rightarrow> ((Value_zero, Some ErrKeyNotFound), ms1)
         | Some v \<Rightarrow>
             ((v, None), updateKeyCount (ms1\<lparr>data := AList.delete key (data ms1)\<rparr>)))))"

text \<open>A \<^verbatim>\<open>nil\<close> slice is \<open>None\<close>.\<close>

definition MemoryStore_List ::
  "Context \<Rightarrow> MemoryStore \<Rightarrow> (Key list option \<times> error option) \<times> MemoryStore" where
  "MemoryStore_List ctx ms =
     (case ctx_Err ctx of Some err \<Rightarrow> ((None, Some err), ms)
      | None \<Rightarrow>
      if closed ms then ((None, Some ErrStoreClosed), ms)
      else ((Some (map fst (data ms)), None), ms))"

definition MemoryStore_ListEntries ::
  "Context \<Rightarrow> MemoryStore \<Rightarrow> (Entry list option \<times> error option) \<times> MemoryStore" where
  "MemoryStore_ListEntries ctx ms =
     (case ctx_Err ctx of Some err \<Rightarrow> ((None, Some err), ms)
      | None \<Rightarrow>
      if closed ms then ((None, Some ErrStoreClosed), ms)
      else ((Some (map (\<lambda>(k, v). \<lparr>Key = k, Val = v\<rparr>) (data ms)), None), ms))"

definition MemoryStore_Size ::
  "Context \<Rightarrow> MemoryStore \<Rightarrow> (64 word \<times> error option) \<times> MemoryStore" where
  "MemoryStore_Size ctx ms =
     (case ctx_Err ctx of Some err \<Rightarrow> ((0, Some err), ms)
      | None \<Rightarrow>
      if closed ms then ((0, Some ErrStoreClosed), ms)
      else ((of_nat (length (data ms)), None), ms))"

definition MemoryStore_Clear :: "Context \<Rightarrow> MemoryStore \<Rightarrow> error option \<times> MemoryStore" where
  "MemoryStore_Clear ctx ms =
     (case ctx_Err ctx of Some err \<Rightarrow> (Some err, ms)
      | None \<Rightarrow>
      if closed ms then (Some ErrStoreClosed, ms)
      else (None, updateKeyCount (ms\<lparr>data := []\<rparr>)))"

definition MemoryStore_Exists ::
  "Context \<Rightarrow> Key \<Rightarrow> MemoryStore \<Rightarrow> (bool \<times> error option) \<times> MemoryStore" where
  "MemoryStore_Exists ctx key ms =
     (case Key_Validate key of Some err \<Rightarrow> ((False, Some err), ms)
      | None \<Rightarrow>
     (case ctx_Err ctx of Some err \<Rightarrow> ((False, Some err), ms)
      | None \<Rightarrow>
      if closed ms then ((False, Some ErrStoreClosed), ms)
      else ((map_of (data ms) key \<noteq> None, None), ms)))"

definition MemoryStore_CompareAndSwap ::
  "Context \<Rightarrow> Key \<Rightarrow> 64 word \<Rightarrow> string \<Rightarrow> time \<Rightarrow> MemoryStore
     \<Rightarrow> (Value \<times> error option) \<times> MemoryStore" where
  "MemoryStore_CompareAndSwap ctx key expectedVersion newValue now ms =
     (case Key_Validate key of Some err \<Rightarrow> ((Value_zero, Some err), ms)
      | None \<Rightarrow>
     (case ctx_Err ctx of Some err \<Rightarrow> ((Value_zero, Some err), ms)
      | None \<Rightarrow>
      if closed ms then ((Value_zero, Some ErrStoreClosed), ms)
      else
        (case map_of (data ms) key of
           None \<Rightarrow> ((Value_zero, Some ErrKeyNotFound), ms)
         | Some currentValue \<Rightarrow>
             if Version currentValue \<noteq> expectedVersion
             then ((currentValue, Some ErrConcurrentModification), ms)
             else
               let updatedValue =
                     \<lparr>Data = newValue, CreatedAt = CreatedAt currentValue, UpdatedAt = now,
                      Version = Version currentValue + 1\<rparr>
               in ((updatedValue, None),
                   ms\<lparr>data := AList.update key updatedValue (data ms)\<rparr>))))"

definition MemoryStore_Close :: "MemoryStore \<Rightarrow> error option \<times> MemoryStore" where
  "MemoryStore_Close ms = (None, ms\<lparr>closed := True\<rparr>)"


text \<open>
  A client's sequence of calls, each with the clock reading at which its body runs.
  \<open>apply_op\<close> keeps the store after the call and drops the result.
\<close>

datatype StoreOp =
    OpGet Context Key
  | OpSet Context Key string
  | OpDelete Context Key
  | OpList Context
  | OpListEntries Context
  | OpSize Context
  | OpClear Context
  | OpExists Context Key
  | OpCompareAndSwap Context Key "64 word" string
  | OpClose

fun apply_op :: "time \<Rightarrow> StoreOp \<Rightarrow> MemoryStore \<Rightarrow> MemoryStore" where
  "apply_op now (OpGet ctx key) ms = snd (MemoryStore_Get ctx key ms)"
| "apply_op now (OpSet ctx key val) ms = snd (MemoryStore_Set ctx key val now ms)"
| "apply_op now (OpDelete ctx key) ms = snd (MemoryStore_Delete ctx key ms)"
| "apply_op now (OpList ctx) ms = snd (MemoryStore_List ctx ms)"
| "apply_op now (OpListEntries ctx) ms = snd (MemoryStore_ListEntries ctx ms)"
| "apply_op now (OpSize ctx) ms = snd (MemoryStore_Size ctx ms)"
| "apply_op now (OpClear ctx) ms = snd (MemoryStore_Clear ctx ms)"
| "apply_op now (OpExists ctx key) ms = snd (MemoryStore_Exists ctx key ms)"
| "apply_op now (OpCompareAndSwap ctx key ev nv) ms =
     snd (MemoryStore_CompareAndSwap ctx key ev nv now ms)"
| "apply_op now OpClose ms = snd (MemoryStore_Close ms)"

fun run :: "(time \<times> StoreOp) list \<Rightarrow> MemoryStore \<Rightarrow> MemoryStore" where
  "run [] ms = ms"
| "run ((now, op) # ops) ms = run ops (apply_op now op ms)"

section \<open>Snapshots and the JSON file persistence (persistence.go)\<close>

text \<open>
  \<^verbatim>\<open>StoreSnapshot\<close>. Its fields \<^verbatim>\<open>Data\<close>, \<^verbatim>\<open>Stats\<close>, \<^verbatim>\<open>Version\<close> and
  \<^verbatim>\<open>Timestamp\<close> carry the prefix \<open>Snap\<close>, since \<open>Data\<close> and \<open>Version\<close> are fields
  of \<open>Value\<close>. The map \<^verbatim>\<open>Data\<close> may be \<^verbatim>\<open>nil\<close> (\<open>None\<close>); a \<^verbatim>\<open>*StoreSnapshot\<close>
  is a \<open>StoreSnapshot option\<close>.
\<close>

record StoreSnapshot =
  SnapData :: "(string \<times> string) list option"
  SnapStats :: StoreStats
  SnapVersion :: string
  SnapTimestamp :: "64 word"

definition ValidateSnapshot :: "StoreSnapshot option \<Rightarrow> error option" where
  "ValidateSnapshot snapshot =
     (case snapshot of
        None \<Rightarrow> Some (Errorf ''snapshot is nil'')
      | Some snap \<Rightarrow>
          if SnapData snap = None then Some (Errorf ''snapshot data is nil'')
          else if SnapVersion snap = [] then Some (Errorf ''snapshot version is empty'')
          else if sint (SnapTimestamp snap) \<le> 0 then Some (Errorf ''snapshot timestamp is invalid'')
          else None)"

text \<open>
  \<^verbatim>\<open>encoding/json\<close> is not code of this repository: \<^verbatim>\<open>json.MarshalIndent\<close> and
  \<^verbatim>\<open>json.Unmarshal\<close> (into a zero \<^verbatim>\<open>StoreSnapshot\<close>) are parameters.
\<close>

record json_codec =
  json_MarshalIndent :: "StoreSnapshot \<Rightarrow> error + string"
  json_Unmarshal :: "string \<Rightarrow> error + StoreSnapshot"

text \<open>
  The file system is a map from paths to file contents. What the operating system
  decides at each call is an argument: whether \<^verbatim>\<open>os.MkdirAll\<close>, \<^verbatim>\<open>os.WriteFile\<close>,
  \<^verbatim>\<open>os.Rename\<close> and \<^verbatim>\<open>os.ReadFile\<close> fail, the random hex suffix that
  \<^verbatim>\<open>rand.Read\<close> and \<^verbatim>\<open>hex.EncodeToString\<close> produce (or the error of
  \<^verbatim>\<open>rand.Read\<close>), and the value of \<^verbatim>\<open>filepath.Dir\<close>.
\<close>

type_synonym filesystem = "string \<rightharpoonup> string"

record os_env =
  filepath_Dir :: "string \<Rightarrow> string"
  os_MkdirAll :: "error option"
  rand_hex :: "error + string"
  os_WriteFile :: "error option"
  os_Rename :: "error option"
  os_ReadFile :: "error option"

record JSONFilePersistence =
  filePath :: string

definition NewJSONFilePersistence :: "string \<Rightarrow> JSONFilePersistence" where
  "NewJSONFilePersistence path = \<lparr>filePath = path\<rparr>"

definition generateTempFileName :: "os_env \<Rightarrow> JSONFilePersistence \<Rightarrow> error + string" where
  "generateTempFileName env j =
     (case rand_hex env of
        Inl err \<Rightarrow> Inl (Wrapf ''failed to generate random bytes: %w'' err)
      | Inr randomHex \<Rightarrow> Inr (filePath j @ ''.tmp.'' @ randomHex))"

text \<open>
  The deferred function of \<^verbatim>\<open>Save\<close>: it removes the temporary file if it is there. It
  runs at every return after the \<^verbatim>\<open>defer\<close> statement.
\<close>

definition cleanupTempFile :: "string \<Rightarrow> filesystem \<Rightarrow> filesystem" where
  "cleanupTempFile tempFile fs = (if fs tempFile \<noteq> None then fs(tempFile := None) else fs)"

definition JSONFilePersistence_Save ::
  "os_env \<Rightarrow> json_codec \<Rightarrow> JSONFilePersistence \<Rightarrow> Context \<Rightarrow> StoreSnapshot option
     \<Rightarrow> filesystem \<Rightarrow> error option \<times> filesystem" where
  "JSONFilePersistence_Save env codec j ctx snapshot fs =
     (case snapshot of
        None \<Rightarrow> (Some (Errorf ''snapshot is nil''), fs)
      | Some snap \<Rightarrow>
     (case ValidateSnapshot snapshot of
        Some err \<Rightarrow> (Some (NewPersistenceError ''save'' err), fs)
      | None \<Rightarrow>
     (case json_MarshalIndent codec snap of
        Inl err \<Rightarrow>
          (Some (NewPersistenceError ''save'' (Wrapf ''failed to marshal snapshot: %w'' err)), fs)
      | Inr bytes \<Rightarrow>
     (let dir = filepath_Dir env (filePath j) in
      case (if dir \<noteq> ''.'' \<and> dir \<noteq> ''/'' then os_MkdirAll env else None) of
        Some err \<Rightarrow>
          (Some (NewPersistenceError ''save'' (Wrapf ''failed to create directory: %w'' err)), fs)
      | None \<Rightarrow>
     (case generateTempFileName env j of
        Inl err \<Rightarrow>
          (Some (NewPersistenceError ''save''
             (Wrapf ''failed to generate temp filename: %w'' err)), fs)
      | Inr tempFile \<Rightarrow>
     (case os_WriteFile env of
        Some err \<Rightarrow>
          (Some (NewPersistenceError ''save'' (Wrapf ''failed to write temp file: %w'' err)),
           cleanupTempFile tempFile fs)
      | None \<Rightarrow>
     (let fs1 = fs(tempFile \<mapsto> bytes) in
      case os_Rename env of
        Some err \<Rightarrow>
          (Some (NewPersistenceError ''save'' (Wrapf ''failed to rename temp file: %w'' err)),
           cleanupTempFile tempFile fs1)
      | None \<Rightarrow>
          (None, cleanupTempFile tempFile ((fs1(tempFile := None))(filePath j \<mapsto> bytes))))))))))"

definition JSONFilePersistence_Load ::
  "os_env \<Rightarrow> json_codec \<Rightarrow> JSONFilePersistence \<Rightarrow> Context \<Rightarrow> filesystem
     \<Rightarrow> StoreSnapshot option \<times> error option" where
  "JSONFilePersistence_Load env codec j ctx fs =
     (case fs (filePath j) of
        None \<Rightarrow> (None, Some (NewPersistenceError ''load'' ErrNoSnapshotFound))
      | Some bytes \<Rightarrow>
     (case os_ReadFile env of
        Some err \<Rightarrow>
          (None, Some (NewPersistenceError ''load'' (Wrapf ''failed to read file: %w'' err)))
      | None \<Rightarrow>
      if length bytes = 0
      then (None, Some (NewPersistenceError ''load'' (Errorf ''file is empty'')))
      else
     (case json_Unmarshal codec bytes of
        Inl err \<Rightarrow>
          (None, Some (NewPersistenceError ''load''
             (Wrapf ''failed to unmarshal snapshot: %w'' err)))
      | Inr snap \<Rightarrow>
     (case ValidateSnapshot (Some snap) of
        Some err \<Rightarrow> (None, Some (NewPersistenceError ''load'' ErrSnapshotCorrupted))
      | None \<Rightarrow> (Some snap, None)))))"

section \<open>PersistentStore (persistent_store.go)\<close>

text \<open>
  The \<^verbatim>\<open>Persistence\<close> interface: an implementation is a pair of functions on its own
  state \<open>'p\<close>. \<^verbatim>\<open>JSONFilePersistence\<close> implements it on the file system.
\<close>

record 'p Persistence =
  Persistence_Save :: "Context \<Rightarrow> StoreSnapshot option \<Rightarrow> 'p \<Rightarrow> error option \<times> 'p"
  Persistence_Load :: "Context \<Rightarrow> 'p \<Rightarrow> (StoreSnapshot option \<times> error option) \<times> 'p"

definition JSONFilePersistence_impl ::
  "os_env \<Rightarrow> json_codec \<Rightarrow> JSONFilePersistence \<Rightarrow> filesystem Persistence" where
  "JSONFilePersistence_impl env codec j =
     \<lparr>Persistence_Save = JSONFilePersistence_Save env codec j,
      Persistence_Load = (\<lambda>ctx fs. (JSONFilePersistence_Load env codec j ctx fs, fs))\<rparr>"

text \<open>
  \<^verbatim>\<open>mockPersistence\<close> of \<^verbatim>\<open>persistent_store_test.go\<close>, the implementation the
  repository's tests run the PersistentStore on; \<^verbatim>\<open>saveCalls\<close> keeps the snapshots.
\<close>

record mockPersistence =
  saveCount :: nat
  loadCount :: nat
  shouldFailSave :: bool
  shouldFailLoad :: bool
  snapshot :: "StoreSnapshot option"
  saveCalls :: "StoreSnapshot option list"

definition newMockPersistence :: mockPersistence where
  "newMockPersistence = \<lparr>saveCount = 0, loadCount = 0, shouldFailSave = False,
     shouldFailLoad = False, snapshot = None, saveCalls = []\<rparr>"

definition mockPersistence_Save ::
  "Context \<Rightarrow> StoreSnapshot option \<Rightarrow> mockPersistence \<Rightarrow> error option \<times> mockPersistence" where
  "mockPersistence_Save ctx snap m =
     (let m1 = m\<lparr>saveCount := saveCount m + 1, saveCalls := saveCalls m @ [snap]\<rparr> in
      if shouldFailSave m1 then (Some (Errorf ''mock save error''), m1)
      else (None, m1\<lparr>snapshot := snap\<rparr>))"

definition mockPersistence_Load ::
  "Context \<Rightarrow> mockPersistence
     \<Rightarrow> (StoreSnapshot option \<times> error option) \<times> mockPersistence" where
  "mockPersistence_Load ctx m =
     (let m1 = m\<lparr>loadCount := loadCount m + 1\<rparr> in
      if shouldFailLoad m1 then ((None, Some (Errorf ''mock load error'')), m1)
      else if snapshot m1 = None then ((None, Some ErrNoSnapshotFound), m1)
      else ((snapshot m1, None), m1))"

definition mockPersistence_impl :: "mockPersistence Persistence" where
  "mockPersistence_impl =
     \<lparr>Persistence_Save = mockPersistence_Save, Persistence_Load = mockPersistence_Load\<rparr>"

text \<open>
  \<^verbatim>\<open>PersistentStoreConfig\<close>. Durations are nanoseconds. \<^verbatim>\<open>RetryAttempts\<close> is a Go
  \<^verbatim>\<open>int\<close>; it is an \<open>int\<close> here, which is exact below \<open>2 ^ 63 - 1\<close>.
\<close>

record PersistentStoreConfig =
  AutoSave :: bool
  SaveInterval :: int
  SaveOnShutdown :: bool
  RetryAttempts :: int
  RetryDelay :: int

definition DefaultPersistentStoreConfig :: PersistentStoreConfig where
  "DefaultPersistentStoreConfig =
     \<lparr>AutoSave = True, SaveInterval = 30 * 1000000000, SaveOnShutdown = True,
      RetryAttempts = 3, RetryDelay = 1 * 1000000000\<rparr>"

text \<open>
  A buffered \<^verbatim>\<open>chan struct{}\<close>: its elements carry nothing, so the buffer is the number
  of elements in it. \<open>chan_try_send\<close> is
  \<^verbatim>\<open>select { case ch <- struct{}{}: default: }\<close>: it sends if the buffer has room and
  otherwise does nothing. (A send on a closed channel panics in Go; \<^verbatim>\<open>triggerSave\<close>
  sends only after it has read \<^verbatim>\<open>closed\<close> as false, and \<^verbatim>\<open>Close\<close> sets that flag
  before it closes the channel.)
\<close>

record chan =
  chan_len :: nat
  chan_cap :: nat
  chan_closed :: bool

definition make_chan :: "nat \<Rightarrow> chan" where
  "make_chan n = \<lparr>chan_len = 0, chan_cap = n, chan_closed = False\<rparr>"

definition chan_try_send :: "chan \<Rightarrow> chan" where
  "chan_try_send ch = (if chan_len ch < chan_cap ch then ch\<lparr>chan_len := chan_len ch + 1\<rparr> else ch)"

text \<open>
  The state of a \<^verbatim>\<open>PersistentStore\<close>. The wrapped \<^verbatim>\<open>Store\<close> is the MemoryStore;
  \<open>persistence\<close> is the state of the \<^verbatim>\<open>Persistence\<close> implementation, whose methods
  are the argument \<open>P\<close> of the functions below. \<open>periodicSaveTimer\<close> says whether a
  timer is pending, \<open>shutdownOnce\<close> whether the \<^verbatim>\<open>sync.Once\<close> has run, \<open>wg\<close> is the
  counter of the wait group (the running \<^verbatim>\<open>saveProcessor\<close> goroutines). The field
  \<^verbatim>\<open>closed\<close> is \<open>ps_closed\<close>, since \<open>closed\<close> is the field of the MemoryStore.
  Calls of the logger are left out. Every clock reading of one call is the argument
  \<open>now\<close>; contexts made by \<^verbatim>\<open>context.WithTimeout(context.Background(), ...)\<close> are
  \<open>Background\<close>, as no step of the model takes time.
\<close>

record 'p PersistentStore =
  store :: MemoryStore
  persistence :: 'p
  config :: PersistentStoreConfig
  saveChannel :: chan
  periodicSaveTimer :: bool
  shutdownOnce :: bool
  ps_closed :: bool
  wg :: nat

text \<open>
  The loop of \<^verbatim>\<open>loadData\<close> over \<^verbatim>\<open>snapshot.Data\<close>: one \<^verbatim>\<open>Set\<close> per pair, errors
  logged and dropped. (A \<^verbatim>\<open>Load\<close> that returned a \<^verbatim>\<open>nil\<close> snapshot with a
  \<^verbatim>\<open>nil\<close> error would make \<^verbatim>\<open>loadData\<close> panic; neither implementation does so,
  and \<open>loadData\<close> then leaves the store as it is.)
\<close>

fun loadData_loop :: "(string \<times> string) list \<Rightarrow> time \<Rightarrow> MemoryStore \<Rightarrow> MemoryStore" where
  "loadData_loop [] now ms = ms"
| "loadData_loop ((key, val) # rest) now ms =
     loadData_loop rest now (snd (MemoryStore_Set Background key val now ms))"

definition loadData ::
  "'p Persistence \<Rightarrow> time \<Rightarrow> 'p PersistentStore \<Rightarrow> error option \<times> 'p PersistentStore" where
  "loadData P now ps =
     (case Persistence_Load P Background (persistence ps) of
        ((snap, Some err), p') \<Rightarrow>
          if err = ErrNoSnapshotFound then (None, ps\<lparr>persistence := p'\<rparr>)
          else (Some (Wrapf ''failed to load snapshot: %w'' err), ps\<lparr>persistence := p'\<rparr>)
      | ((None, None), p') \<Rightarrow> (None, ps\<lparr>persistence := p'\<rparr>)
      | ((Some snap, None), p') \<Rightarrow>
          (None, ps\<lparr>persistence := p',
                    store := loadData_loop (case SnapData snap of None \<Rightarrow> [] | Some d \<Rightarrow> d)
                               now (store ps)\<rparr>))"

definition createSnapshot ::
  "time \<Rightarrow> 'p PersistentStore \<Rightarrow> StoreSnapshot option \<times> error option" where
  "createSnapshot now ps =
     (case fst (MemoryStore_ListEntries Background (store ps)) of
        (entries, Some err) \<Rightarrow> (None, Some (Wrapf ''failed to list entries: %w'' err))
      | (entries, None) \<Rightarrow>
          let d = fold (\<lambda>entry m. AList.update (Key entry) (Data (Val entry)) m)
                    (case entries of None \<Rightarrow> [] | Some es \<Rightarrow> es) []
          in (Some \<lparr>SnapData = Some d,
                    SnapStats = StoreStats_zero\<lparr>TotalKeys := of_nat (length d)\<rparr>,
                    SnapVersion = ''1.0'',
                    SnapTimestamp = time_Unix now\<rparr>, None))"

text \<open>
  The loop of \<^verbatim>\<open>saveWithRetry\<close>, from \<open>attempt\<close> on; \<open>lastErr\<close> is \<^verbatim>\<open>nil\<close> until
  an attempt has failed. \<^verbatim>\<open>time.Sleep\<close> has no effect on the state.
\<close>

function saveWithRetry_loop ::
  "'p Persistence \<Rightarrow> int \<Rightarrow> int \<Rightarrow> error option \<Rightarrow> StoreSnapshot option \<Rightarrow> 'p
     \<Rightarrow> error option \<times> 'p" where
  "saveWithRetry_loop P retryAttempts attempt lastErr snap p =
     (if attempt \<le> retryAttempts then
        (case Persistence_Save P Background snap p of
           (None, p') \<Rightarrow> (None, p')
         | (Some err, p') \<Rightarrow> saveWithRetry_loop P retryAttempts (attempt + 1) (Some err) snap p')
      else
        (case lastErr of
           None \<Rightarrow> (Some (Errorf ''failed to save after %d attempts: %w''), p)
         | Some err \<Rightarrow> (Some (Wrapf ''failed to save after %d attempts: %w'' err), p)))"
  by pat_completeness auto
termination
  by (relation "measure (\<lambda>(P, retryAttempts, attempt, lastErr, snap, p).
        nat (retryAttempts + 1 - attempt))") auto

definition saveWithRetry ::
  "'p Persistence \<Rightarrow> StoreSnapshot option \<Rightarrow> 'p PersistentStore
     \<Rightarrow> error option \<times> 'p PersistentStore" where
  "saveWithRetry P snap ps =
     (case saveWithRetry_loop P (RetryAttempts (config ps)) 0 None snap (persistence ps) of
        (err, p') \<Rightarrow> (err, ps\<lparr>persistence := p'\<rparr>))"

definition triggerSave :: "'p PersistentStore \<Rightarrow> 'p PersistentStore" where
  "triggerSave ps =
     (if ps_closed ps then ps
      else ps\<lparr>saveChannel := chan_try_send (saveChannel ps)\<rparr>)"

text \<open>
  One turn of the loop \<^verbatim>\<open>for range ps.saveChannel\<close> of the goroutine
  \<^verbatim>\<open>saveProcessor\<close>: with an empty buffer it waits (no change) or, if the channel is
  closed, ends; otherwise it takes one signal, ends if the store is closed, and else
  builds a snapshot and saves it with retries. Errors are logged only.
\<close>

definition saveProcessor_step ::
  "'p Persistence \<Rightarrow> time \<Rightarrow> 'p PersistentStore \<Rightarrow> 'p PersistentStore" where
  "saveProcessor_step P now ps =
     (if wg ps = 0 then ps
      else if chan_len (saveChannel ps) = 0 then
        (if chan_closed (saveChannel ps) then ps\<lparr>wg := wg ps - 1\<rparr> else ps)
      else
        let ps1 = ps\<lparr>saveChannel := (saveChannel ps)\<lparr>chan_len := chan_len (saveChannel ps) - 1\<rparr>\<rparr>
        in if ps_closed ps1 then ps1\<lparr>wg := wg ps1 - 1\<rparr>
           else (case createSnapshot now ps1 of
                   (snap, Some err) \<Rightarrow> ps1
                 | (snap, None) \<Rightarrow> snd (saveWithRetry P snap ps1)))"

definition startPeriodicSave :: "'p PersistentStore \<Rightarrow> 'p PersistentStore" where
  "startPeriodicSave ps = (if ps_closed ps then ps else ps\<lparr>periodicSaveTimer := True\<rparr>)"

text \<open>The function given to \<^verbatim>\<open>time.AfterFunc\<close>, run when a pending timer fires.\<close>

definition periodicSaveTimer_fire :: "'p PersistentStore \<Rightarrow> 'p PersistentStore" where
  "periodicSaveTimer_fire ps =
     (if \<not> periodicSaveTimer ps then ps
      else
        let ps1 = triggerSave (ps\<lparr>periodicSaveTimer := False\<rparr>) in
        if \<not> ps_closed ps1 then startPeriodicSave ps1 else ps1)"

definition NewPersistentStore ::
  "'p Persistence \<Rightarrow> MemoryStore option \<Rightarrow> 'p option \<Rightarrow> PersistentStoreConfig \<Rightarrow> time
     \<Rightarrow> 'p PersistentStore option \<times> error option" where
  "NewPersistentStore P st pers cfg now =
     (case st of
        None \<Rightarrow> (None, Some (Errorf ''store cannot be nil''))
      | Some ms \<Rightarrow>
     (case pers of
        None \<Rightarrow> (None, Some (Errorf ''persistence cannot be nil''))
      | Some p \<Rightarrow>
          let cfg1 = (if SaveInterval cfg = 0 then cfg\<lparr>SaveInterval := 30 * 1000000000\<rparr> else cfg);
              cfg2 = (if RetryAttempts cfg1 = 0 then cfg1\<lparr>RetryAttempts := 3\<rparr> else cfg1);
              cfg3 = (if RetryDelay cfg2 = 0 then cfg2\<lparr>RetryDelay := 1 * 1000000000\<rparr> else cfg2);
              ps = \<lparr>store = ms, persistence = p, config = cfg3, saveChannel = make_chan 100,
                    periodicSaveTimer = False, shutdownOnce = False, ps_closed = False, wg = 0\<rparr>;
              ps1 = snd (loadData P now ps);
              ps2 = ps1\<lparr>wg := wg ps1 + 1\<rparr>;
              ps3 = (if SaveInterval cfg3 > 0 then startPeriodicSave ps2 else ps2)
          in (Some ps3, None)))"

text \<open>The methods of the \<^verbatim>\<open>Store\<close> interface.\<close>

definition PersistentStore_Get ::
  "Context \<Rightarrow> Key \<Rightarrow> 'p PersistentStore \<Rightarrow> (Value \<times> error option) \<times> 'p PersistentStore" where
  "PersistentStore_Get ctx key ps =
     (if ps_closed ps then ((Value_zero, Some ErrStoreClosed), ps)
      else case MemoryStore_Get ctx key (store ps) of (r, ms') \<Rightarrow> (r, ps\<lparr>store := ms'\<rparr>))"

definition PersistentStore_Set ::
  "Context \<Rightarrow> Key \<Rightarrow> string \<Rightarrow> time \<Rightarrow> 'p PersistentStore
     \<Rightarrow> error option \<times> 'p PersistentStore" where
  "PersistentStore_Set ctx key val now ps =
     (if ps_closed ps then (Some ErrStoreClosed, ps)
      else case MemoryStore_Set ctx key val now (store ps) of
        (Some err, ms') \<Rightarrow> (Some err, ps\<lparr>store := ms'\<rparr>)
      | (None, ms') \<Rightarrow>
          (None, if AutoSave (config ps) then triggerSave (ps\<lparr>store := ms'\<rparr>)
                 else ps\<lparr>store := ms'\<rparr>))"

definition PersistentStore_Delete ::
  "Context \<Rightarrow> Key \<Rightarrow> 'p PersistentStore \<Rightarrow> (Value \<times> error option) \<times> 'p PersistentStore" where
  "PersistentStore_Delete ctx key ps =
     (if ps_closed ps then ((Value_zero, Some ErrStoreClosed), ps)
      else case MemoryStore_Delete ctx key (store ps) of
        ((v, Some err), ms') \<Rightarrow> ((v, Some err), ps\<lparr>store := ms'\<rparr>)
      | ((v, None), ms') \<Rightarrow>
          ((v, None), if AutoSave (config ps) then triggerSave (ps\<lparr>store := ms'\<rparr>)
                      else ps\<lparr>store := ms'\<rparr>))"

definition PersistentStore_List ::
  "Context \<Rightarrow> 'p PersistentStore \<Rightarrow> (Key list option \<times> error option) \<times> 'p PersistentStore" where
  "PersistentStore_List ctx ps =
     (if ps_closed ps then ((None, Some ErrStoreClosed), ps)
      else case MemoryStore_List ctx (store ps) of (r, ms') \<Rightarrow> (r, ps\<lparr>store := ms'\<rparr>))"

definition PersistentStore_ListEntries ::
  "Context \<Rightarrow> 'p PersistentStore
     \<Rightarrow> (Entry list option \<times> error option) \<times> 'p PersistentStore" where
  "PersistentStore_ListEntries ctx ps =
     (if ps_closed ps then ((None, Some ErrStoreClosed), ps)
      else case MemoryStore_ListEntries ctx (store ps) of (r, ms') \<Rightarrow> (r, ps\<lparr>store := ms'\<rparr>))"

definition PersistentStore_Size ::
  "Context \<Rightarrow> 'p PersistentStore \<Rightarrow> (64 word \<times> error option) \<times> 'p PersistentStore" where
  "PersistentStore_Size ctx ps =
     (if ps_closed ps then ((0, Some ErrStoreClosed), ps)
      else case MemoryStore_Size ctx (store ps) of (r, ms') \<Rightarrow> (r, ps\<lparr>store := ms'\<rparr>))"

definition PersistentStore_Clear ::
  "Context \<Rightarrow> 'p PersistentStore \<Rightarrow> error option \<times> 'p PersistentStore" where
  "PersistentStore_Clear ctx ps =
     (if ps_closed ps then (Some ErrStoreClosed, ps)
      else case MemoryStore_Clear ctx (store ps) of
        (Some err, ms') \<Rightarrow> (Some err, ps\<lparr>store := ms'\<rparr>)
      | (None, ms') \<Rightarrow>
          (None, if AutoSave (config ps) then triggerSave (ps\<lparr>store := ms'\<rparr>)
                 else ps\<lparr>store := ms'\<rparr>))"

definition PersistentStore_Exists ::
  "Context \<Rightarrow> Key \<Rightarrow> 'p PersistentStore \<Rightarrow> (bool \<times> error option) \<times> 'p PersistentStore" where
  "PersistentStore_Exists ctx key ps =
     (if ps_closed ps then ((False, Some ErrStoreClosed), ps)
      else case MemoryStore_Exists ctx key (store ps) of (r, ms') \<Rightarrow> (r, ps\<lparr>store := ms'\<rparr>))"

definition PersistentStore_CompareAndSwap ::
  "Context \<Rightarrow> Key \<Rightarrow> 64 word \<Rightarrow> string \<Rightarrow> time \<Rightarrow> 'p PersistentStore
     \<Rightarrow> (Value \<times> error option) \<times> 'p PersistentStore" where
  "PersistentStore_CompareAndSwap ctx key expectedVersion newValue now ps =
     (if ps_closed ps then ((Value_zero, Some ErrStoreClosed), ps)
      else case MemoryStore_CompareAndSwap ctx key expectedVersion newValue now (store ps) of
        ((v, Some err), ms') \<Rightarrow> ((v, Some err), ps\<lparr>store := ms'\<rparr>)
      | ((v, None), ms') \<Rightarrow>
          ((v, None), if AutoSave (config ps) then triggerSave (ps\<lparr>store := ms'\<rparr>)
                      else ps\<lparr>store := ms'\<rparr>))"

text \<open>
  \<^verbatim>\<open>Close\<close>. The body runs under \<^verbatim>\<open>shutdownOnce.Do\<close>; \<^verbatim>\<open>closeErr\<close> is a local
  variable of each call. After \<^verbatim>\<open>close(ps.saveChannel)\<close>, \<^verbatim>\<open>ps.wg.Wait()\<close> lets the
  goroutine \<^verbatim>\<open>saveProcessor\<close> run to its end: with the store closed it takes at most
  one buffered signal and returns.
\<close>

definition PersistentStore_Close ::
  "'p Persistence \<Rightarrow> time \<Rightarrow> 'p PersistentStore \<Rightarrow> error option \<times> 'p PersistentStore" where
  "PersistentStore_Close P now ps =
     (if shutdownOnce ps then (None, ps)
      else
        let ps1 = ps\<lparr>shutdownOnce := True, ps_closed := True, periodicSaveTimer := False\<rparr>;
            (closeErr, ps2) =
              (if SaveOnShutdown (config ps1) then
                 (case createSnapshot now ps1 of
                    (snap, Some err) \<Rightarrow> (None, ps1)
                  | (snap, None) \<Rightarrow> saveWithRetry P snap ps1)
               else (None, ps1));
            ps3 = ps2\<lparr>saveChannel := (saveChannel ps2)\<lparr>chan_closed := True\<rparr>\<rparr>;
            ps4 = saveProcessor_step P now ps3;
            (err, ms') = MemoryStore_Close (store ps4)
        in (if closeErr = None then err else closeErr, ps4\<lparr>store := ms'\<rparr>))"

section \<open>Properties of the MemoryStore\<close>

lemmas MemoryStore_defs =
  MemoryStore_Get_def MemoryStore_Set_def MemoryStore_Delete_def MemoryStore_List_def
  MemoryStore_ListEntries_def MemoryStore_Size_def MemoryStore_Clear_def
  MemoryStore_Exists_def MemoryStore_CompareAndSwap_def MemoryStore_Close_def
  NewMemoryStore_def StoreStats_zero_def incrementStat_def updateKeyCount_def
  Key_Validate_def Value_zero_def Let_def

lemma containsNullByte_iff: "containsNullByte k \<longleftrightarrow> CHR 0x00 \<in> set k"
  by (induction k) auto

lemma Key_Validate_None_iff:
  "Key_Validate k = None \<longleftrightarrow> k \<noteq> [] \<and> length k \<le> 255 \<and> CHR 0x00 \<notin> set k"
  by (auto simp: Key_Validate_def containsNullByte_iff)

lemma Key_Validate_Some: "Key_Validate k = Some e \<Longrightarrow> e = ErrInvalidKey"
  by (auto simp: Key_Validate_def split: if_splits)

lemma Set_success:
  assumes "MemoryStore_Set ctx key val now ms = (None, ms')"
  shows "map_of (data ms') key =
           Some (case map_of (data ms) key of
                   None \<Rightarrow> \<lparr>Data = val, CreatedAt = now, UpdatedAt = now, Version = 1\<rparr>
                 | Some old \<Rightarrow> \<lparr>Data = val, CreatedAt = CreatedAt old, UpdatedAt = now,
                                Version = Version old + 1\<rparr>)"
    and "map_of (data ms') = (map_of (data ms))(key \<mapsto> the (map_of (data ms') key))"
    and "Key_Validate key = None" and "ctx_Err ctx = None" and "\<not> closed ms"
    and "\<not> closed ms'"
  using assms
  by (auto simp: MemoryStore_Set_def Let_def update_conv' incrementStat_def updateKeyCount_def
      split: option.splits if_splits)

lemma CompareAndSwap_success:
  assumes "MemoryStore_CompareAndSwap ctx key ev nv now ms = ((v, None), ms')"
  shows "\<exists>cur. map_of (data ms) key = Some cur \<and> Version cur = ev
           \<and> v = \<lparr>Data = nv, CreatedAt = CreatedAt cur, UpdatedAt = now, Version = ev + 1\<rparr>"
    and "map_of (data ms') = (map_of (data ms))(key \<mapsto> v)"
    and "stats ms' = stats ms" and "closed ms' = closed ms"
    and "Key_Validate key = None" and "ctx_Err ctx = None" and "\<not> closed ms"
  using assms
  by (auto simp: MemoryStore_CompareAndSwap_def Let_def update_conv'
      split: option.splits if_splits)

lemma CompareAndSwap_match:
  assumes "Key_Validate key = None" "ctx_Err ctx = None" "\<not> closed ms"
    "map_of (data ms) key = Some cur" "Version cur = ev"
  shows "MemoryStore_CompareAndSwap ctx key ev nv now ms =
           ((\<lparr>Data = nv, CreatedAt = CreatedAt cur, UpdatedAt = now, Version = ev + 1\<rparr>, None),
            ms\<lparr>data := AList.update key
                 \<lparr>Data = nv, CreatedAt = CreatedAt cur, UpdatedAt = now, Version = ev + 1\<rparr>
                 (data ms)\<rparr>)"
  using assms by (simp add: MemoryStore_CompareAndSwap_def Let_def)

lemma two_Sets:
  assumes "Key_Validate key = None" "\<not> closed ms" "map_of (data ms) key = None"
  shows "fst (MemoryStore_Get Background key
            (snd (MemoryStore_Set Background key v2 t2
               (snd (MemoryStore_Set Background key v1 t1 ms))))) =
         (\<lparr>Data = v2, CreatedAt = t1, UpdatedAt = t2, Version = 2\<rparr>, None)"
  using assms
  by (simp add: MemoryStore_Get_def MemoryStore_Set_def Let_def update_conv'
      incrementStat_def updateKeyCount_def)

text \<open>
  C10. Key validation comes before the closed check in the MemoryStore: for an invalid
  key (empty, longer than 255 bytes, or containing a null byte) \<open>Get\<close>, \<open>Set\<close>,
  \<open>Delete\<close>, \<open>Exists\<close> and \<open>CompareAndSwap\<close> return \<open>ErrInvalidKey\<close> and leave
  the store as it is, whatever the store's state (closed or not) and whatever the context.
\<close>

theorem invalid_key_before_closed:
  assumes "key = [] \<or> 255 < length key \<or> CHR 0x00 \<in> set key"
  shows "MemoryStore_Get ctx key ms = ((Value_zero, Some ErrInvalidKey), ms)
       \<and> MemoryStore_Set ctx key val now ms = (Some ErrInvalidKey, ms)
       \<and> MemoryStore_Delete ctx key ms = ((Value_zero, Some ErrInvalidKey), ms)
       \<and> MemoryStore_Exists ctx key ms = ((False, Some ErrInvalidKey), ms)
       \<and> MemoryStore_CompareAndSwap ctx key ev nv now ms =
           ((Value_zero, Some ErrInvalidKey), ms)"
proof -
  from assms have "Key_Validate key = Some ErrInvalidKey"
    by (auto simp: Key_Validate_def containsNullByte_iff)
  then show ?thesis
    by (simp add: MemoryStore_Get_def MemoryStore_Set_def MemoryStore_Delete_def
        MemoryStore_Exists_def MemoryStore_CompareAndSwap_def)
qed

theorem invalid_key_before_closed_witness:
  "(let ms = snd (MemoryStore_Close NewMemoryStore) in
      closed ms
    \<and> MemoryStore_Get Background [] ms = ((Value_zero, Some ErrInvalidKey), ms)
    \<and> MemoryStore_Set Background [] ''v'' 7 ms = (Some ErrInvalidKey, ms)
    \<and> MemoryStore_Delete Background [] ms = ((Value_zero, Some ErrInvalidKey), ms)
    \<and> MemoryStore_Exists Background [] ms = ((False, Some ErrInvalidKey), ms)
    \<and> MemoryStore_CompareAndSwap Background [] 1 ''v'' 7 ms =
         ((Value_zero, Some ErrInvalidKey), ms)
    \<and> MemoryStore_Get Background (replicate 256 CHR ''a'') ms =
         ((Value_zero, Some ErrInvalidKey), ms)
    \<and> MemoryStore_Get Background [CHR ''a'', CHR 0x00] ms =
         ((Value_zero, Some ErrInvalidKey), ms))"
proof -
  have h1: "([]::string) = [] \<or> 255 < length ([]::string) \<or> CHR 0x00 \<in> set ([]::string)"
    by simp
  have h2: "replicate 256 CHR ''a'' = [] \<or> 255 < length (replicate 256 CHR ''a'')
      \<or> CHR 0x00 \<in> set (replicate 256 CHR ''a'')"
    by simp
  have h3: "[CHR ''a'', CHR 0x00] = [] \<or> 255 < length [CHR ''a'', CHR 0x00]
      \<or> CHR 0x00 \<in> set [CHR ''a'', CHR 0x00]"
    by simp
  show ?thesis
    using invalid_key_before_closed [OF h1] invalid_key_before_closed [OF h2]
      invalid_key_before_closed [OF h3]
    by (simp add: Let_def MemoryStore_Close_def)
qed

text \<open>
  C1. \<open>CompareAndSwap\<close> succeeds (nil error) only if the key is stored with a version
  equal to \<open>expectedVersion\<close>, and then the stored version is \<open>expectedVersion + 1\<close>.
  Whenever it returns an error the store is unchanged. On an open store, with a valid key
  and a live context: an absent key gives \<open>ErrKeyNotFound\<close>; a stored version equal to
  \<open>expectedVersion\<close> gives success; a different stored version gives the current
  stored value together with \<open>ErrConcurrentModification\<close>, and that value is still the
  one stored.
\<close>

theorem CompareAndSwap_version_check:
  assumes "MemoryStore_CompareAndSwap ctx key expectedVersion newData now ms = ((v, err), ms')"
  shows "(err = None \<longrightarrow>
            (\<exists>cur. map_of (data ms) key = Some cur \<and> Version cur = expectedVersion
                \<and> map_of (data ms') key = Some v \<and> Version v = expectedVersion + 1))
       \<and> (err \<noteq> None \<longrightarrow> ms' = ms)
       \<and> (Key_Validate key = None \<and> ctx_Err ctx = None \<and> \<not> closed ms \<longrightarrow>
            (case map_of (data ms) key of
               None \<Rightarrow> v = Value_zero \<and> err = Some ErrKeyNotFound
             | Some cur \<Rightarrow>
                 if Version cur = expectedVersion then err = None
                 else v = cur \<and> err = Some ErrConcurrentModification
                    \<and> map_of (data ms') key = Some cur))"
proof (cases "Key_Validate key")
  case (Some e)
  with assms show ?thesis by (auto simp: MemoryStore_CompareAndSwap_def)
next
  case valid: None
  show ?thesis
  proof (cases "ctx_Err ctx")
    case (Some e)
    with valid assms show ?thesis by (auto simp: MemoryStore_CompareAndSwap_def)
  next
    case live: None
    show ?thesis
    proof (cases "closed ms")
      case True
      with valid live assms show ?thesis by (auto simp: MemoryStore_CompareAndSwap_def)
    next
      case opn: False
      show ?thesis
      proof (cases "map_of (data ms) key")
        case None
        with valid live opn assms show ?thesis
          by (auto simp: MemoryStore_CompareAndSwap_def)
      next
        case (Some cur)
        with valid live opn assms show ?thesis
          by (cases "Version cur = expectedVersion")
            (auto simp: MemoryStore_CompareAndSwap_def Let_def update_conv')
      qed
    qed
  qed
qed

theorem CompareAndSwap_version_check_witness:
  "(let v1 = \<lparr>Data = ''v1'', CreatedAt = 10, UpdatedAt = 10, Version = 1\<rparr>;
        v3 = \<lparr>Data = ''v3'', CreatedAt = 10, UpdatedAt = 20, Version = 2\<rparr>;
        ms = snd (MemoryStore_Set Background ''k'' ''v1'' 10 NewMemoryStore) in
      MemoryStore_CompareAndSwap Background ''k'' 5 ''v3'' 20 ms =
        ((v1, Some ErrConcurrentModification), ms)
    \<and> map_of (data ms) ''k'' = Some v1
    \<and> MemoryStore_CompareAndSwap Background ''j'' 5 ''v3'' 20 ms =
        ((Value_zero, Some ErrKeyNotFound), ms)
    \<and> MemoryStore_CompareAndSwap Background ''k'' 1 ''v3'' 20 ms =
        ((v3, None), ms\<lparr>data := [(''k'', v3)]\<rparr>))"
proof -
  let ?v1 = "\<lparr>Data = ''v1'', CreatedAt = 10, UpdatedAt = 10, Version = 1\<rparr>"
  let ?v3 = "\<lparr>Data = ''v3'', CreatedAt = 10, UpdatedAt = 20, Version = 2\<rparr>"
  let ?ms = "snd (MemoryStore_Set Background ''k'' ''v1'' 10 NewMemoryStore)"
  have h1: "MemoryStore_CompareAndSwap Background ''k'' 5 ''v3'' 20 ?ms =
      ((?v1, Some ErrConcurrentModification), ?ms)"
    by (simp add: MemoryStore_defs)
  have h2: "MemoryStore_CompareAndSwap Background ''j'' 5 ''v3'' 20 ?ms =
      ((Value_zero, Some ErrKeyNotFound), ?ms)"
    by (simp add: MemoryStore_defs)
  have h3: "MemoryStore_CompareAndSwap Background ''k'' 1 ''v3'' 20 ?ms =
      ((?v3, None), ?ms\<lparr>data := [(''k'', ?v3)]\<rparr>)"
    by (simp add: MemoryStore_defs)
  have c: "map_of (data ?ms) ''k'' = Some ?v1"
    by (simp add: MemoryStore_defs)
  show ?thesis
    using CompareAndSwap_version_check [OF h1] CompareAndSwap_version_check [OF h2]
      CompareAndSwap_version_check [OF h3] h1 h2 h3 c
    unfolding Let_def by blast
qed

end
